theory Spec2Isabelle
  imports Main "HOL-Library.Word"
begin

unbundle bit_operations_syntax

section \<open>Data model of \<open>CaffeineApp\<close>\<close>

text \<open>
  The enumerations that \<open>CaffeineApp.cpp\<close> switches over. \<open>CaffeineMode\<close> is listed in
  the order of the toggle cycle of \<open>ToggleCaffeineMode\<close>.
\<close>

datatype CaffeineMode = Disabled | Enabled | Auto | Timer

datatype CaffeineState = Inactive | Active

datatype SessionState = Unlocked | Locked

text \<open>
  \<open>Settings\<close> holds one block per mode; \<open>UpdateExecutionState\<close> reads the two booleans
  \<open>KeepDisplayOn\<close> and \<open>DisableOnLockScreen\<close> of \<open>Standard\<close>, \<open>Auto\<close> and \<open>Timer\<close>. The
  blocks of the modes Auto and Timer are named \<open>Auto_settings\<close> and \<open>Timer_settings\<close>
  here, since \<open>Auto\<close> and \<open>Timer\<close> are the constructors of \<open>CaffeineMode\<close>. The other
  members of \<open>Settings\<close> (icon pack, parameters of the policies) are not read by the
  functions modelled below.
\<close>

record ModeSettings =
  KeepDisplayOn :: bool
  DisableOnLockScreen :: bool

record Settings =
  Standard :: ModeSettings
  Auto_settings :: ModeSettings
  Timer_settings :: ModeSettings

text \<open>
  Modelled from the spec: the default constructor \<open>Settings()\<close>, whose declaration is in
  a header outside the sources at hand. The specification gives the defaults as
  \<open>keepDisplayOn = false\<close>, \<open>disableOnLockScreen = false\<close> for every mode.
\<close>

definition Settings_default :: Settings where
  "Settings_default =
     \<lparr>Standard = \<lparr>KeepDisplayOn = False, DisableOnLockScreen = False\<rparr>,
      Auto_settings = \<lparr>KeepDisplayOn = False, DisableOnLockScreen = False\<rparr>,
      Timer_settings = \<lparr>KeepDisplayOn = False, DisableOnLockScreen = False\<rparr>\<rparr>"

text \<open>The icon and the tooltip that \<open>UpdateIcon\<close> and \<open>UpdateTip\<close> select.\<close>

datatype Icon =
    CaffeineDisabled | CaffeineEnabled
  | CaffeineAutoInactive | CaffeineAutoActive
  | CaffeineTimerInactive | CaffeineTimerActive

datatype Tip =
    IDS_CAFFEINE_DISABLED | IDS_CAFFEINE_ENABLED
  | IDS_CAFFEINE_AUTO_INACTIVE | IDS_CAFFEINE_AUTO_ACTIVE
  | IDS_CAFFEINE_TIMER_INACTIVE | IDS_CAFFEINE_TIMER_ACTIVE

text \<open>
  The argument of \<open>SetThreadExecutionState\<close> is a 32-bit mask. The three flags have the
  values of the Windows SDK.
\<close>

type_synonym EXECUTION_STATE = "32 word"

definition ES_SYSTEM_REQUIRED :: EXECUTION_STATE where
  "ES_SYSTEM_REQUIRED = 0x00000001"

definition ES_DISPLAY_REQUIRED :: EXECUTION_STATE where
  "ES_DISPLAY_REQUIRED = 0x00000002"

definition ES_CONTINUOUS :: EXECUTION_STATE where
  "ES_CONTINUOUS = 0x80000000"

text \<open>
  Two histories are kept beside the members of the class, to state what the code does
  to its collaborators: \<open>osCalls\<close>, the arguments of the calls of
  \<open>SetThreadExecutionState\<close> in the order they were made, and \<open>modeCalls\<close>, the calls of
  \<open>Start\<close> and \<open>Stop\<close> on the mode objects.
\<close>

datatype ModeCall = Started CaffeineMode | Stopped CaffeineMode

record CaffeineApp =
  mSettings :: Settings
  mInitialized :: bool
  mSessionState :: SessionState
  mCaffeineState :: CaffeineState
  mCaffeineMode :: CaffeineMode
  mKeepDisplayOn :: bool
  notifyIcon :: "Icon option"
  notifyTip :: "Tip option"
  osCalls :: "EXECUTION_STATE list"
  modeCalls :: "ModeCall list"

text \<open>The member initialisers of the constructor.\<close>

definition CaffeineApp_ctor :: CaffeineApp where
  "CaffeineApp_ctor =
     \<lparr>mSettings = Settings_default,
      mInitialized = False,
      mSessionState = Unlocked,
      mCaffeineState = Inactive,
      mCaffeineMode = Disabled,
      mKeepDisplayOn = False,
      notifyIcon = None,
      notifyTip = None,
      osCalls = [],
      modeCalls = []\<rparr>"

section \<open>The environment\<close>

text \<open>
  The classes of the four mode objects (\<open>mDisabledMode\<close>, \<open>mEnabledMode\<close>, \<open>mAutoMode\<close>,
  \<open>mTimerMode\<close>) are not part of the sources at hand. A mode object reaches the
  application through \<open>EnableCaffeine\<close> and \<open>DisableCaffeine\<close> only, so what its \<open>Start\<close>
  and \<open>Stop\<close> do before they return is a list of such reports (\<open>True\<close> for
  \<open>EnableCaffeine\<close>). The mode objects are a parameter of the model; reports that a
  policy makes later (a timer tick) are stimuli of their own.

  \<open>SetThreadExecutionState\<close> fails or succeeds as the operating system decides:
  \<open>os_ok n\<close> tells whether the call that follows \<open>n\<close> earlier ones succeeds.
\<close>

record ModePolicy =
  Start :: "bool list"
  Stop :: "bool list"

record Env =
  os_ok :: "nat \<Rightarrow> bool"
  mDisabledMode :: ModePolicy
  mEnabledMode :: ModePolicy
  mAutoMode :: ModePolicy
  mTimerMode :: ModePolicy

text \<open>
  Modelled from the spec: \<open>Start\<close> and \<open>Stop\<close> of the four mode classes, which are
  missing from the sources. The specification says: Disabled reports inactive once on
  start; Enabled reports active once on start; Auto begins a periodic inspection and
  reports on later ticks only; Timer reports active on start and inactive when the
  countdown expires; every \<open>Stop\<close> reports nothing.
\<close>

definition spec_policies :: "(nat \<Rightarrow> bool) \<Rightarrow> Env" where
  "spec_policies ok =
     \<lparr>os_ok = ok,
      mDisabledMode = \<lparr>Start = [False], Stop = []\<rparr>,
      mEnabledMode = \<lparr>Start = [True], Stop = []\<rparr>,
      mAutoMode = \<lparr>Start = [], Stop = []\<rparr>,
      mTimerMode = \<lparr>Start = [True], Stop = []\<rparr>\<rparr>"

section \<open>Icon and tooltip\<close>

text \<open>
  \<open>UpdateIcon\<close> and \<open>UpdateTip\<close> choose by mode and state; the model records the
  choice as the icon and tip now shown (\<open>SetIcon\<close> and \<open>SetTip\<close> of the notify icon are
  taken to succeed; their callers ignore the result).
\<close>

definition UpdateIcon :: "CaffeineApp \<Rightarrow> CaffeineApp" where
  "UpdateIcon s =
     (let icon =
        (case mCaffeineMode s of
           Disabled \<Rightarrow> CaffeineDisabled
         | Enabled \<Rightarrow> CaffeineEnabled
         | Auto \<Rightarrow>
             (if mCaffeineState s = Inactive then CaffeineAutoInactive
              else CaffeineAutoActive)
         | Timer \<Rightarrow>
             (if mCaffeineState s = Inactive then CaffeineTimerInactive
              else CaffeineTimerActive))
      in if notifyIcon s = Some icon then s else s\<lparr>notifyIcon := Some icon\<rparr>)"

definition UpdateTip :: "CaffeineApp \<Rightarrow> CaffeineApp" where
  "UpdateTip s =
     (let tip =
        (case mCaffeineMode s of
           Disabled \<Rightarrow> IDS_CAFFEINE_DISABLED
         | Enabled \<Rightarrow> IDS_CAFFEINE_ENABLED
         | Auto \<Rightarrow>
             (if mCaffeineState s = Inactive then IDS_CAFFEINE_AUTO_INACTIVE
              else IDS_CAFFEINE_AUTO_ACTIVE)
         | Timer \<Rightarrow>
             (if mCaffeineState s = Inactive then IDS_CAFFEINE_TIMER_INACTIVE
              else IDS_CAFFEINE_TIMER_ACTIVE))
      in if notifyTip s = Some tip then s else s\<lparr>notifyTip := Some tip\<rparr>)"

section \<open>Execution state\<close>

text \<open>
  \<open>UpdateExecutionState\<close>, statement by statement: the switch that reads the settings
  of the mode, the lock-screen adjustment and the two early returns, the assignment of
  the two members, the flags, the call of the operating system, and the refresh of icon
  and tip when that call succeeded.
\<close>

definition UpdateExecutionState :: "Env \<Rightarrow> CaffeineState \<Rightarrow> CaffeineApp \<Rightarrow> CaffeineApp" where
  "UpdateExecutionState env state s =
     (let (keepDisplayOn, disableOnLock) =
            (case mCaffeineMode s of
               Disabled \<Rightarrow> (False, False)
             | Enabled \<Rightarrow>
                 (KeepDisplayOn (Standard (mSettings s)),
                  DisableOnLockScreen (Standard (mSettings s)))
             | Auto \<Rightarrow>
                 (KeepDisplayOn (Auto_settings (mSettings s)),
                  DisableOnLockScreen (Auto_settings (mSettings s)))
             | Timer \<Rightarrow>
                 (KeepDisplayOn (Timer_settings (mSettings s)),
                  DisableOnLockScreen (Timer_settings (mSettings s))));
          keepDisplayOn =
            (if mCaffeineMode s \<noteq> Disabled \<and> mSessionState s = Locked \<and> keepDisplayOn
             then \<not> disableOnLock else keepDisplayOn)
      in if (if mCaffeineMode s \<noteq> Disabled
             then mCaffeineState s = state \<and> mKeepDisplayOn s = keepDisplayOn
             else mCaffeineState s = state)
         then s
         else
           (let s1 = s\<lparr>mCaffeineState := state, mKeepDisplayOn := keepDisplayOn\<rparr>;
                flags =
                  (if mCaffeineState s1 = Active
                   then (if keepDisplayOn
                         then ES_CONTINUOUS OR ES_SYSTEM_REQUIRED OR ES_DISPLAY_REQUIRED
                         else ES_CONTINUOUS OR ES_SYSTEM_REQUIRED)
                   else ES_CONTINUOUS);
                s2 = s1\<lparr>osCalls := osCalls s1 @ [flags]\<rparr>
            in if \<not> os_ok env (length (osCalls s1)) then s2
               else UpdateTip (UpdateIcon s2)))"

definition RefreshExecutionState :: "Env \<Rightarrow> CaffeineApp \<Rightarrow> CaffeineApp" where
  "RefreshExecutionState env s = UpdateExecutionState env (mCaffeineState s) s"

section \<open>Messages\<close>

text \<open>
  \<open>OnCustomMessage\<close> tests its message against one constant of the application, whose
  value is in a header outside the sources; the message is therefore either that
  constant or another one. \<open>wParam\<close> is converted to \<open>bool\<close>, that is compared with 0.
\<close>

datatype CustomMessage =
    WM_CAFFEINE_TAKE_UPDATE_EXECUTION_STATE
  | OtherCustomMessage nat

definition OnCustomMessage :: "Env \<Rightarrow> CustomMessage \<Rightarrow> nat \<Rightarrow> CaffeineApp \<Rightarrow> CaffeineApp" where
  "OnCustomMessage env uMsg wParam s =
     (case uMsg of
        WM_CAFFEINE_TAKE_UPDATE_EXECUTION_STATE \<Rightarrow>
          (if wParam \<noteq> 0 then UpdateExecutionState env Active s
           else UpdateExecutionState env Inactive s)
      | OtherCustomMessage _ \<Rightarrow> s)"

text \<open>
  \<open>EnableCaffeine\<close> and \<open>DisableCaffeine\<close> send that message to the window of the notify
  icon, whose handler is \<open>OnCustomMessage\<close>; both return \<open>true\<close>.
\<close>

definition EnableCaffeine :: "Env \<Rightarrow> CaffeineApp \<Rightarrow> CaffeineApp" where
  "EnableCaffeine env s = OnCustomMessage env WM_CAFFEINE_TAKE_UPDATE_EXECUTION_STATE 1 s"

definition DisableCaffeine :: "Env \<Rightarrow> CaffeineApp \<Rightarrow> CaffeineApp" where
  "DisableCaffeine env s = OnCustomMessage env WM_CAFFEINE_TAKE_UPDATE_EXECUTION_STATE 0 s"

text \<open>The session messages, with the values of the Windows SDK.\<close>

definition WM_WTSSESSION_CHANGE :: nat where
  "WM_WTSSESSION_CHANGE = 0x02B1"

definition WTS_SESSION_LOCK :: nat where
  "WTS_SESSION_LOCK = 0x7"

definition WTS_SESSION_UNLOCK :: nat where
  "WTS_SESSION_UNLOCK = 0x8"

definition OnSystemMessage :: "Env \<Rightarrow> nat \<Rightarrow> nat \<Rightarrow> CaffeineApp \<Rightarrow> bool \<times> CaffeineApp" where
  "OnSystemMessage env uMsg wParam s =
     (if uMsg = WM_WTSSESSION_CHANGE then
        (if wParam = WTS_SESSION_LOCK then
           (True, RefreshExecutionState env (s\<lparr>mSessionState := Locked\<rparr>))
         else if wParam = WTS_SESSION_UNLOCK then
           (True, RefreshExecutionState env (s\<lparr>mSessionState := Unlocked\<rparr>))
         else (False, s))
      else (False, s))"

section \<open>Modes\<close>

text \<open>The reports a mode object makes inside its \<open>Start\<close> or \<open>Stop\<close>, in order.\<close>

fun reports :: "Env \<Rightarrow> bool list \<Rightarrow> CaffeineApp \<Rightarrow> CaffeineApp" where
  "reports env [] s = s"
| "reports env (b # bs) s =
     reports env bs (if b then EnableCaffeine env s else DisableCaffeine env s)"

definition StartMode :: "Env \<Rightarrow> CaffeineApp \<Rightarrow> CaffeineApp" where
  "StartMode env s =
     (let s1 = s\<lparr>modeCalls := modeCalls s @ [Started (mCaffeineMode s)]\<rparr>
      in case mCaffeineMode s of
           Disabled \<Rightarrow> reports env (Start (mDisabledMode env)) s1
         | Enabled \<Rightarrow> reports env (Start (mEnabledMode env)) s1
         | Auto \<Rightarrow> reports env (Start (mAutoMode env)) s1
         | Timer \<Rightarrow> reports env (Start (mTimerMode env)) s1)"

definition StopMode :: "Env \<Rightarrow> CaffeineApp \<Rightarrow> CaffeineApp" where
  "StopMode env s =
     (let s1 = s\<lparr>modeCalls := modeCalls s @ [Stopped (mCaffeineMode s)]\<rparr>
      in case mCaffeineMode s of
           Disabled \<Rightarrow> reports env (Stop (mDisabledMode env)) s1
         | Enabled \<Rightarrow> reports env (Stop (mEnabledMode env)) s1
         | Auto \<Rightarrow> reports env (Stop (mAutoMode env)) s1
         | Timer \<Rightarrow> reports env (Stop (mTimerMode env)) s1)"

definition SetCaffeineMode :: "Env \<Rightarrow> CaffeineMode \<Rightarrow> CaffeineApp \<Rightarrow> CaffeineApp" where
  "SetCaffeineMode env mode s =
     (let s1 = StopMode env s;
          s2 = s1\<lparr>mCaffeineMode := mode\<rparr>;
          s3 = StartMode env s2
      in UpdateTip (UpdateIcon s3))"

definition ToggleCaffeineMode :: "Env \<Rightarrow> CaffeineApp \<Rightarrow> CaffeineApp" where
  "ToggleCaffeineMode env s =
     (let mode =
        (case mCaffeineMode s of
           Disabled \<Rightarrow> Enabled
         | Enabled \<Rightarrow> Auto
         | Auto \<Rightarrow> Timer
         | Timer \<Rightarrow> Disabled)
      in SetCaffeineMode env mode s)"

section \<open>Settings\<close>

text \<open>
  What \<open>Init\<close> and \<open>LoadSettings\<close> find at the settings path. The tests the code makes
  are those of the standard library and of the JSON library: the path does not exist;
  it exists and cannot be opened; its text is not JSON (\<open>parse\<close> returns a discarded
  value); it is JSON from which the conversion to \<open>Settings\<close> throws; it converts.
\<close>

datatype SettingsFile =
    FileNotFound
  | FileUnreadable
  | FileNotJson
  | FileJsonNotSettings
  | FileSettings Settings

definition LoadSettings :: "SettingsFile \<Rightarrow> CaffeineApp \<Rightarrow> bool \<times> CaffeineApp" where
  "LoadSettings file s =
     (case file of
        FileNotFound \<Rightarrow> (False, s)
      | FileUnreadable \<Rightarrow> (False, s)
      | FileNotJson \<Rightarrow> (False, s)
      | FileJsonNotSettings \<Rightarrow> (True, s\<lparr>mSettings := Settings_default\<rparr>)
      | FileSettings v \<Rightarrow> (True, s\<lparr>mSettings := v\<rparr>))"

text \<open>
  \<open>ShowSettingsDialog\<close>: the argument is the result of the dialog, \<open>None\<close> when it was
  dismissed. Writing the file afterwards leaves the application unchanged.
\<close>

definition ShowSettingsDialog :: "Env \<Rightarrow> Settings option \<Rightarrow> CaffeineApp \<Rightarrow> CaffeineApp" where
  "ShowSettingsDialog env result s =
     (case result of
        None \<Rightarrow> s
      | Some newSettings \<Rightarrow>
          RefreshExecutionState env
            (s\<lparr>mSettings := (mSettings s)
                 \<lparr>Standard := Standard newSettings,
                  Auto_settings := Auto_settings newSettings\<rparr>\<rparr>))"

section \<open>Initialisation\<close>

text \<open>
  \<open>Init\<close>: a missing file is replaced by the defaults (the result of \<open>SaveSettings\<close> is
  not looked at), an existing one is loaded and \<open>Init\<close> returns \<open>false\<close> when loading
  does. \<open>session\<close> is the answer of \<open>IsSessionLocked\<close>, \<open>notifyIconOk\<close> that of the
  creation of the notify icon.
\<close>

definition Init :: "Env \<Rightarrow> SettingsFile \<Rightarrow> SessionState \<Rightarrow> bool \<Rightarrow> CaffeineApp \<Rightarrow> bool \<times> CaffeineApp" where
  "Init env file session notifyIconOk s =
     (let (loaded, s1) =
            (if file = FileNotFound then (True, s) else LoadSettings file s)
      in if \<not> loaded then (False, s1)
         else
           (let s2 = s1\<lparr>mSessionState := session\<rparr>
            in if \<not> notifyIconOk then (False, s2)
               else
                 (let s3 = SetCaffeineMode env (mCaffeineMode s2) s2
                  in (True, s3\<lparr>mInitialized := True\<rparr>))))"

section \<open>Stimuli\<close>

text \<open>
  The events that reach the application once it runs: a mode chosen in the menu, a
  click (toggle), a report of the running policy, a session lock or unlock, and new
  settings from the dialog.
\<close>

datatype Stimulus =
    SetMode CaffeineMode
  | Toggle
  | PolicyDecision bool
  | SessionLock
  | SessionUnlock
  | SettingsChanged Settings

definition step :: "Env \<Rightarrow> Stimulus \<Rightarrow> CaffeineApp \<Rightarrow> CaffeineApp" where
  "step env x s =
     (case x of
        SetMode m \<Rightarrow> SetCaffeineMode env m s
      | Toggle \<Rightarrow> ToggleCaffeineMode env s
      | PolicyDecision b \<Rightarrow>
          (if b then EnableCaffeine env s else DisableCaffeine env s)
      | SessionLock \<Rightarrow> snd (OnSystemMessage env WM_WTSSESSION_CHANGE WTS_SESSION_LOCK s)
      | SessionUnlock \<Rightarrow> snd (OnSystemMessage env WM_WTSSESSION_CHANGE WTS_SESSION_UNLOCK s)
      | SettingsChanged v \<Rightarrow> ShowSettingsDialog env (Some v) s)"

fun run :: "Env \<Rightarrow> Stimulus list \<Rightarrow> CaffeineApp \<Rightarrow> CaffeineApp" where
  "run env [] s = s"
| "run env (x # xs) s = run env xs (step env x s)"

text \<open>
  The state from which the stimuli are run: the constructor's, with the settings that
  were loaded and the session state that was queried. The call
  \<open>SetCaffeineMode(mCaffeineMode)\<close> that ends \<open>Init\<close> is the stimulus \<open>SetMode Disabled\<close>.
\<close>

definition initial :: "Settings \<Rightarrow> SessionState \<Rightarrow> CaffeineApp" where
  "initial cfg session = CaffeineApp_ctor\<lparr>mSettings := cfg, mSessionState := session\<rparr>"

text \<open>
  The settings of the active mode and the value of \<open>keepDisplayOn\<close> after the
  lock-screen adjustment, as \<open>UpdateExecutionState\<close> computes them.
\<close>

definition modeKeepDisplayOn :: "CaffeineApp \<Rightarrow> bool" where
  "modeKeepDisplayOn s =
     (case mCaffeineMode s of
        Disabled \<Rightarrow> False
      | Enabled \<Rightarrow> KeepDisplayOn (Standard (mSettings s))
      | Auto \<Rightarrow> KeepDisplayOn (Auto_settings (mSettings s))
      | Timer \<Rightarrow> KeepDisplayOn (Timer_settings (mSettings s)))"

definition modeDisableOnLock :: "CaffeineApp \<Rightarrow> bool" where
  "modeDisableOnLock s =
     (case mCaffeineMode s of
        Disabled \<Rightarrow> False
      | Enabled \<Rightarrow> DisableOnLockScreen (Standard (mSettings s))
      | Auto \<Rightarrow> DisableOnLockScreen (Auto_settings (mSettings s))
      | Timer \<Rightarrow> DisableOnLockScreen (Timer_settings (mSettings s)))"

definition desiredKeepDisplayOn :: "CaffeineApp \<Rightarrow> bool" where
  "desiredKeepDisplayOn s =
     (if mCaffeineMode s \<noteq> Disabled \<and> mSessionState s = Locked \<and> modeKeepDisplayOn s
      then \<not> modeDisableOnLock s else modeKeepDisplayOn s)"

text \<open>The mode calls that are a \<open>Start\<close> without a later \<open>Stop\<close> of the same mode.\<close>

fun unmatched :: "CaffeineMode list \<Rightarrow> ModeCall list \<Rightarrow> CaffeineMode list" where
  "unmatched acc [] = acc"
| "unmatched acc (Started m # cs) = unmatched (m # acc) cs"
| "unmatched acc (Stopped m # cs) = unmatched (remove1 m acc) cs"

text \<open>
  The test of the two early returns of \<open>UpdateExecutionState\<close>, and the flags it passes
  to the operating system for a state and a display flag.
\<close>

definition noUpdateNeeded :: "CaffeineState \<Rightarrow> CaffeineApp \<Rightarrow> bool" where
  "noUpdateNeeded state s =
     (if mCaffeineMode s \<noteq> Disabled
      then mCaffeineState s = state \<and> mKeepDisplayOn s = desiredKeepDisplayOn s
      else mCaffeineState s = state)"

definition flagsFor :: "CaffeineState \<Rightarrow> bool \<Rightarrow> EXECUTION_STATE" where
  "flagsFor state keepDisplayOn =
     (if state = Active
      then (if keepDisplayOn
            then ES_CONTINUOUS OR ES_SYSTEM_REQUIRED OR ES_DISPLAY_REQUIRED
            else ES_CONTINUOUS OR ES_SYSTEM_REQUIRED)
      else ES_CONTINUOUS)"

text \<open>
  The display is requested from the operating system when the last call of
  \<open>SetThreadExecutionState\<close> carried \<open>ES_DISPLAY_REQUIRED\<close>.
\<close>

definition displayRequested :: "CaffeineApp \<Rightarrow> bool" where
  "displayRequested s =
     (osCalls s \<noteq> [] \<and> last (osCalls s) AND ES_DISPLAY_REQUIRED \<noteq> 0)"

text \<open>Settings and environments used as concrete inputs below.\<close>

definition cfg_display :: Settings where
  "cfg_display =
     \<lparr>Standard = \<lparr>KeepDisplayOn = True, DisableOnLockScreen = False\<rparr>,
      Auto_settings = \<lparr>KeepDisplayOn = True, DisableOnLockScreen = False\<rparr>,
      Timer_settings = \<lparr>KeepDisplayOn = True, DisableOnLockScreen = False\<rparr>\<rparr>"

definition cfg_display_lock :: Settings where
  "cfg_display_lock =
     \<lparr>Standard = \<lparr>KeepDisplayOn = True, DisableOnLockScreen = True\<rparr>,
      Auto_settings = \<lparr>KeepDisplayOn = True, DisableOnLockScreen = True\<rparr>,
      Timer_settings = \<lparr>KeepDisplayOn = True, DisableOnLockScreen = True\<rparr>\<rparr>"

definition env_ok :: Env where
  "env_ok = spec_policies (\<lambda>n. True)"

definition env_fail :: Env where
  "env_fail = spec_policies (\<lambda>n. False)"

definition ex_enabled :: "Settings \<Rightarrow> SessionState \<Rightarrow> CaffeineApp" where
  "ex_enabled cfg session = (initial cfg session)\<lparr>mCaffeineMode := Enabled\<rparr>"

text \<open>
  The last request to the operating system agrees with the two members: before any
  call the application is inactive with the display flag off, afterwards the last flags
  are those of the recorded state and display flag.
\<close>

definition lastRequestMatches :: "CaffeineApp \<Rightarrow> bool" where
  "lastRequestMatches s =
     (if osCalls s = [] then mCaffeineState s = Inactive \<and> \<not> mKeepDisplayOn s
      else last (osCalls s) = flagsFor (mCaffeineState s) (mKeepDisplayOn s))"

text \<open>
  Flags that carry \<open>ES_CONTINUOUS\<close>, and \<open>ES_DISPLAY_REQUIRED\<close> only together with
  \<open>ES_SYSTEM_REQUIRED\<close>.
\<close>

definition wellFormedFlags :: "EXECUTION_STATE \<Rightarrow> bool" where
  "wellFormedFlags f =
     (f AND ES_CONTINUOUS \<noteq> 0
      \<and> (f AND ES_DISPLAY_REQUIRED \<noteq> 0 \<longrightarrow> f AND ES_SYSTEM_REQUIRED \<noteq> 0))"

text \<open>
  Two further inputs: the application after Enabled was chosen at start-up with
  \<open>cfg_display_lock\<close>, and an application in Auto mode that is active with the display
  flag set.
\<close>

definition ex_enabled_active :: CaffeineApp where
  "ex_enabled_active = SetCaffeineMode env_ok Enabled (initial cfg_display_lock Unlocked)"

definition ex_stale :: CaffeineApp where
  "ex_stale = (initial cfg_display Unlocked)\<lparr>mCaffeineMode := Auto, mKeepDisplayOn := True,
      mCaffeineState := Active\<rparr>"

section \<open>How \<open>UpdateExecutionState\<close> changes the application\<close>

lemma UpdateIcon_frame:
  "mSettings (UpdateIcon s) = mSettings s"
  "mInitialized (UpdateIcon s) = mInitialized s"
  "mSessionState (UpdateIcon s) = mSessionState s"
  "mCaffeineState (UpdateIcon s) = mCaffeineState s"
  "mCaffeineMode (UpdateIcon s) = mCaffeineMode s"
  "mKeepDisplayOn (UpdateIcon s) = mKeepDisplayOn s"
  "notifyTip (UpdateIcon s) = notifyTip s"
  "osCalls (UpdateIcon s) = osCalls s"
  "modeCalls (UpdateIcon s) = modeCalls s"
  by (simp_all add: UpdateIcon_def Let_def)

lemma UpdateTip_frame:
  "mSettings (UpdateTip s) = mSettings s"
  "mInitialized (UpdateTip s) = mInitialized s"
  "mSessionState (UpdateTip s) = mSessionState s"
  "mCaffeineState (UpdateTip s) = mCaffeineState s"
  "mCaffeineMode (UpdateTip s) = mCaffeineMode s"
  "mKeepDisplayOn (UpdateTip s) = mKeepDisplayOn s"
  "notifyIcon (UpdateTip s) = notifyIcon s"
  "osCalls (UpdateTip s) = osCalls s"
  "modeCalls (UpdateTip s) = modeCalls s"
  by (simp_all add: UpdateTip_def Let_def)

text \<open>The body of \<open>UpdateExecutionState\<close> in terms of the test and the flags.\<close>

lemma UpdateExecutionState_unfold:
  "UpdateExecutionState env state s =
     (if noUpdateNeeded state s then s
      else
        (let s2 = s\<lparr>mCaffeineState := state,
                    mKeepDisplayOn := desiredKeepDisplayOn s,
                    osCalls := osCalls s @ [flagsFor state (desiredKeepDisplayOn s)]\<rparr>
         in if os_ok env (length (osCalls s)) then UpdateTip (UpdateIcon s2) else s2))"
  by (cases "mCaffeineMode s")
     (simp_all add: UpdateExecutionState_def noUpdateNeeded_def flagsFor_def
        desiredKeepDisplayOn_def modeKeepDisplayOn_def modeDisableOnLock_def Let_def)

lemma UES_frame:
  "mSettings (UpdateExecutionState env state s) = mSettings s"
  "mInitialized (UpdateExecutionState env state s) = mInitialized s"
  "mSessionState (UpdateExecutionState env state s) = mSessionState s"
  "mCaffeineMode (UpdateExecutionState env state s) = mCaffeineMode s"
  "modeCalls (UpdateExecutionState env state s) = modeCalls s"
  by (simp_all add: UpdateExecutionState_unfold Let_def UpdateIcon_frame UpdateTip_frame)

lemma UES_mCaffeineState:
  "mCaffeineState (UpdateExecutionState env state s) = state"
  by (auto simp add: UpdateExecutionState_unfold Let_def UpdateIcon_frame UpdateTip_frame
        noUpdateNeeded_def)

lemma UES_mKeepDisplayOn:
  "mKeepDisplayOn (UpdateExecutionState env state s) =
     (if mCaffeineMode s = Disabled
      then (if mCaffeineState s = state then mKeepDisplayOn s else False)
      else desiredKeepDisplayOn s)"
  by (auto simp add: UpdateExecutionState_unfold Let_def UpdateIcon_frame UpdateTip_frame
        noUpdateNeeded_def desiredKeepDisplayOn_def modeKeepDisplayOn_def)

lemma UES_osCalls:
  "osCalls (UpdateExecutionState env state s) =
     (if noUpdateNeeded state s then osCalls s
      else osCalls s @ [flagsFor state (desiredKeepDisplayOn s)])"
  by (simp add: UpdateExecutionState_unfold Let_def UpdateIcon_frame UpdateTip_frame)

lemma flagsFor_display:
  "(flagsFor state k AND ES_DISPLAY_REQUIRED = 0) = (\<not> (state = Active \<and> k))"
  by (simp add: flagsFor_def ES_CONTINUOUS_def ES_SYSTEM_REQUIRED_def ES_DISPLAY_REQUIRED_def)

lemma flagsFor_system:
  "(flagsFor state k AND ES_SYSTEM_REQUIRED = 0) = (state \<noteq> Active)"
  by (simp add: flagsFor_def ES_CONTINUOUS_def ES_SYSTEM_REQUIRED_def ES_DISPLAY_REQUIRED_def)

lemma flagsFor_continuous:
  "flagsFor state k AND ES_CONTINUOUS \<noteq> 0"
  by (simp add: flagsFor_def ES_CONTINUOUS_def ES_SYSTEM_REQUIRED_def ES_DISPLAY_REQUIRED_def)

lemmas ex_defs = ex_enabled_def initial_def CaffeineApp_ctor_def cfg_display_def
  cfg_display_lock_def Settings_default_def env_ok_def env_fail_def spec_policies_def

lemmas flag_defs = flagsFor_def ES_CONTINUOUS_def ES_SYSTEM_REQUIRED_def ES_DISPLAY_REQUIRED_def

lemmas mode_defs = modeDisableOnLock_def modeKeepDisplayOn_def desiredKeepDisplayOn_def
  noUpdateNeeded_def

section \<open>Mode switches and stimuli\<close>

lemma report_frame:
  "mSettings (EnableCaffeine env s) = mSettings s"
  "mSessionState (EnableCaffeine env s) = mSessionState s"
  "mCaffeineMode (EnableCaffeine env s) = mCaffeineMode s"
  "modeCalls (EnableCaffeine env s) = modeCalls s"
  "mSettings (DisableCaffeine env s) = mSettings s"
  "mSessionState (DisableCaffeine env s) = mSessionState s"
  "mCaffeineMode (DisableCaffeine env s) = mCaffeineMode s"
  "modeCalls (DisableCaffeine env s) = modeCalls s"
  by (simp_all add: EnableCaffeine_def DisableCaffeine_def OnCustomMessage_def UES_frame)

lemma reports_frame:
  "mSettings (reports env bs s) = mSettings s
   \<and> mSessionState (reports env bs s) = mSessionState s
   \<and> mCaffeineMode (reports env bs s) = mCaffeineMode s
   \<and> modeCalls (reports env bs s) = modeCalls s"
  by (induction bs arbitrary: s) (simp_all add: report_frame)

lemma StopMode_frame:
  "mSettings (StopMode env s) = mSettings s"
  "mSessionState (StopMode env s) = mSessionState s"
  "mCaffeineMode (StopMode env s) = mCaffeineMode s"
  "modeCalls (StopMode env s) = modeCalls s @ [Stopped (mCaffeineMode s)]"
  by (cases "mCaffeineMode s"; simp add: StopMode_def Let_def reports_frame)+

lemma StartMode_frame:
  "mSettings (StartMode env s) = mSettings s"
  "mSessionState (StartMode env s) = mSessionState s"
  "mCaffeineMode (StartMode env s) = mCaffeineMode s"
  "modeCalls (StartMode env s) = modeCalls s @ [Started (mCaffeineMode s)]"
  by (cases "mCaffeineMode s"; simp add: StartMode_def Let_def reports_frame)+

lemma SetCaffeineMode_frame:
  "mSettings (SetCaffeineMode env m s) = mSettings s"
  "mSessionState (SetCaffeineMode env m s) = mSessionState s"
  "mCaffeineMode (SetCaffeineMode env m s) = m"
  "modeCalls (SetCaffeineMode env m s) = modeCalls s @ [Stopped (mCaffeineMode s), Started m]"
  by (simp_all add: SetCaffeineMode_def Let_def UpdateIcon_frame UpdateTip_frame
        StartMode_frame StopMode_frame)

lemma ToggleCaffeineMode_frame:
  "mSettings (ToggleCaffeineMode env s) = mSettings s"
  "mSessionState (ToggleCaffeineMode env s) = mSessionState s"
  by (simp_all add: ToggleCaffeineMode_def Let_def SetCaffeineMode_frame)

text \<open>A property kept by UpdateExecutionState and by every other assignment is kept by a stimulus.\<close>

lemma reports_preserves:
  assumes "\<And>st s. P s \<Longrightarrow> P (UpdateExecutionState env st s)"
  shows "P s \<Longrightarrow> P (reports env bs s)"
  by (induction bs arbitrary: s)
     (simp_all add: EnableCaffeine_def DisableCaffeine_def OnCustomMessage_def assms)

lemma SetCaffeineMode_preserves:
  assumes ues: "\<And>st s. P s \<Longrightarrow> P (UpdateExecutionState env st s)"
    and md: "\<And>s m. P s \<Longrightarrow> P (s\<lparr>mCaffeineMode := m\<rparr>)"
    and mc: "\<And>s c. P s \<Longrightarrow> P (s\<lparr>modeCalls := c\<rparr>)"
    and ic: "\<And>s. P s \<Longrightarrow> P (UpdateIcon s)"
    and tp: "\<And>s. P s \<Longrightarrow> P (UpdateTip s)"
  shows "P s \<Longrightarrow> P (SetCaffeineMode env m s)"
proof -
  assume p: "P s"
  have stop: "P (StopMode env s)"
    unfolding StopMode_def Let_def
    by (cases "mCaffeineMode s") (simp_all add: reports_preserves [where P = P] ues mc p)
  have mid: "P ((StopMode env s)\<lparr>mCaffeineMode := m\<rparr>)"
    by (rule md [OF stop])
  have start: "\<And>t. P t \<Longrightarrow> P (StartMode env t)"
    unfolding StartMode_def Let_def
    subgoal for t
      by (cases "mCaffeineMode t") (simp_all add: reports_preserves [where P = P] ues mc)
    done
  show ?thesis
    unfolding SetCaffeineMode_def Let_def
    by (intro tp ic start mid)
qed

lemma step_preserves:
  assumes ues: "\<And>st s. P s \<Longrightarrow> P (UpdateExecutionState env st s)"
    and md: "\<And>s m. P s \<Longrightarrow> P (s\<lparr>mCaffeineMode := m\<rparr>)"
    and mc: "\<And>s c. P s \<Longrightarrow> P (s\<lparr>modeCalls := c\<rparr>)"
    and ss: "\<And>s v. P s \<Longrightarrow> P (s\<lparr>mSessionState := v\<rparr>)"
    and st: "\<And>s v. P s \<Longrightarrow> P (s\<lparr>mSettings := v\<rparr>)"
    and ic: "\<And>s. P s \<Longrightarrow> P (UpdateIcon s)"
    and tp: "\<And>s. P s \<Longrightarrow> P (UpdateTip s)"
  shows "P s \<Longrightarrow> P (step env x s)"
proof -
  assume p: "P s"
  have set: "\<And>m. P (SetCaffeineMode env m s)"
    by (rule SetCaffeineMode_preserves [where P = P]) (fact ues md mc ic tp p)+
  show ?thesis
  proof (cases x)
    case (SetMode m)
    then show ?thesis by (simp add: step_def set)
  next
    case Toggle
    then show ?thesis by (simp add: step_def ToggleCaffeineMode_def Let_def set)
  next
    case (PolicyDecision b)
    then show ?thesis
      by (simp add: step_def EnableCaffeine_def DisableCaffeine_def OnCustomMessage_def ues p)
  next
    case SessionLock
    then show ?thesis
      by (simp add: step_def OnSystemMessage_def RefreshExecutionState_def ues ss p)
  next
    case SessionUnlock
    then show ?thesis
      by (simp add: step_def OnSystemMessage_def RefreshExecutionState_def ues ss p
            WTS_SESSION_LOCK_def WTS_SESSION_UNLOCK_def)
  next
    case (SettingsChanged v)
    then show ?thesis
      by (simp add: step_def ShowSettingsDialog_def RefreshExecutionState_def ues st p)
  qed
qed


lemma run_preserves:
  assumes ues: "\<And>st s. P s \<Longrightarrow> P (UpdateExecutionState env st s)"
    and md: "\<And>s m. P s \<Longrightarrow> P (s\<lparr>mCaffeineMode := m\<rparr>)"
    and mc: "\<And>s c. P s \<Longrightarrow> P (s\<lparr>modeCalls := c\<rparr>)"
    and ss: "\<And>s v. P s \<Longrightarrow> P (s\<lparr>mSessionState := v\<rparr>)"
    and st: "\<And>s v. P s \<Longrightarrow> P (s\<lparr>mSettings := v\<rparr>)"
    and ic: "\<And>s. P s \<Longrightarrow> P (UpdateIcon s)"
    and tp: "\<And>s. P s \<Longrightarrow> P (UpdateTip s)"
  shows "P s \<Longrightarrow> P (run env xs s)"
proof (induction xs arbitrary: s)
  case Nil
  then show ?case by simp
next
  case (Cons x xs)
  have "P (step env x s)"
    by (rule step_preserves [where P = P]) (fact ues md mc ss st ic tp Cons.prems)+
  then show ?case by (simp add: Cons.IH)
qed

section \<open>Invariants of the requests to the operating system\<close>

lemma run_lastRequestMatches:
  "lastRequestMatches s \<Longrightarrow> lastRequestMatches (run env xs s)"
proof (rule run_preserves [where P = lastRequestMatches])
  fix st s
  assume "lastRequestMatches s"
  then show "lastRequestMatches (UpdateExecutionState env st s)"
    by (cases "noUpdateNeeded st s")
       (auto simp add: lastRequestMatches_def UES_osCalls UES_mCaffeineState UES_mKeepDisplayOn
          noUpdateNeeded_def desiredKeepDisplayOn_def modeKeepDisplayOn_def split: if_splits)
qed (simp_all add: lastRequestMatches_def UpdateIcon_frame UpdateTip_frame)

lemma initial_lastRequestMatches: "lastRequestMatches (initial cfg session)"
  by (simp add: lastRequestMatches_def initial_def CaffeineApp_ctor_def)

lemma wellFormedFlags_flagsFor: "wellFormedFlags (flagsFor state k)"
  by (simp add: wellFormedFlags_def flagsFor_def ES_CONTINUOUS_def ES_SYSTEM_REQUIRED_def
        ES_DISPLAY_REQUIRED_def)

lemma run_wellFormedFlags:
  "\<forall>f \<in> set (osCalls s). wellFormedFlags f \<Longrightarrow>
   \<forall>f \<in> set (osCalls (run env xs s)). wellFormedFlags f"
proof (rule run_preserves [where P = "\<lambda>s::CaffeineApp. \<forall>f \<in> set (osCalls s). wellFormedFlags f"])
  fix st and s :: CaffeineApp
  assume "\<forall>f \<in> set (osCalls s). wellFormedFlags f"
  then show "\<forall>f \<in> set (osCalls (UpdateExecutionState env st s)). wellFormedFlags f"
    by (simp add: UES_osCalls wellFormedFlags_flagsFor)
qed (simp_all add: UpdateIcon_frame UpdateTip_frame)

section \<open>Setting the mode with the policies of the specification\<close>

lemma desiredKeepDisplayOn_cong:
  "mCaffeineMode a = mCaffeineMode b \<Longrightarrow> mSessionState a = mSessionState b \<Longrightarrow>
   mSettings a = mSettings b \<Longrightarrow> desiredKeepDisplayOn a = desiredKeepDisplayOn b"
  by (cases "mCaffeineMode b")
     (simp_all add: desiredKeepDisplayOn_def modeKeepDisplayOn_def modeDisableOnLock_def)

lemma SetEnabled_spec:
  "SetCaffeineMode (spec_policies ok) Enabled s =
     UpdateTip (UpdateIcon (UpdateExecutionState (spec_policies ok) Active
       (s\<lparr>mCaffeineMode := Enabled,
          modeCalls := modeCalls s @ [Stopped (mCaffeineMode s), Started Enabled]\<rparr>)))"
  by (cases "mCaffeineMode s")
     (simp_all add: SetCaffeineMode_def StopMode_def StartMode_def Let_def spec_policies_def
        EnableCaffeine_def OnCustomMessage_def)

lemma SetEnabled_spec_state:
  "mCaffeineState (SetCaffeineMode (spec_policies ok) Enabled s) = Active"
  "mKeepDisplayOn (SetCaffeineMode (spec_policies ok) Enabled s) =
     desiredKeepDisplayOn (s\<lparr>mCaffeineMode := Enabled\<rparr>)"
  by (simp_all add: SetEnabled_spec UpdateIcon_frame UpdateTip_frame UES_mCaffeineState
        UES_mKeepDisplayOn desiredKeepDisplayOn_def modeKeepDisplayOn_def modeDisableOnLock_def)

lemma SetEnabled_spec_osCalls:
  "osCalls (SetCaffeineMode (spec_policies ok) Enabled s) =
     (if mCaffeineState s = Active
         \<and> mKeepDisplayOn s = desiredKeepDisplayOn (s\<lparr>mCaffeineMode := Enabled\<rparr>)
      then osCalls s
      else osCalls s @ [flagsFor Active (desiredKeepDisplayOn (s\<lparr>mCaffeineMode := Enabled\<rparr>))])"
  by (simp add: SetEnabled_spec UpdateIcon_frame UpdateTip_frame UES_osCalls noUpdateNeeded_def
        desiredKeepDisplayOn_def modeKeepDisplayOn_def modeDisableOnLock_def)

lemma Refresh_frame:
  "mSettings (RefreshExecutionState env s) = mSettings s"
  "mSessionState (RefreshExecutionState env s) = mSessionState s"
  "mCaffeineMode (RefreshExecutionState env s) = mCaffeineMode s"
  "modeCalls (RefreshExecutionState env s) = modeCalls s"
  "mCaffeineState (RefreshExecutionState env s) = mCaffeineState s"
  by (simp_all add: RefreshExecutionState_def UES_frame UES_mCaffeineState)

lemma ex_enabled_active_fields:
  "mCaffeineMode ex_enabled_active = Enabled"
  "mCaffeineState ex_enabled_active = Active"
  "mKeepDisplayOn ex_enabled_active = True"
  "mSessionState ex_enabled_active = Unlocked"
  "mSettings ex_enabled_active = cfg_display_lock"
  "osCalls ex_enabled_active = [0x80000003]"
  "modeCalls ex_enabled_active = [Stopped Disabled, Started Enabled]"
  by (simp_all add: ex_enabled_active_def env_ok_def SetCaffeineMode_frame SetEnabled_spec_state
        SetEnabled_spec_osCalls desiredKeepDisplayOn_def modeKeepDisplayOn_def
        modeDisableOnLock_def initial_def CaffeineApp_ctor_def cfg_display_lock_def flag_defs)

section \<open>Calls of the mode objects\<close>

lemma unmatched_append:
  "unmatched acc (xs @ ys) = unmatched (unmatched acc xs) ys"
  by (induction acc xs rule: unmatched.induct) simp_all

lemma stop_start_keeps_one:
  assumes "unmatched [] cs = [] \<or> unmatched [] cs = [old]"
    and "\<And>n. length (unmatched [] (take n cs)) \<le> 1"
  shows "unmatched [] (cs @ [Stopped old, Started m]) = [m]"
    and "length (unmatched [] (take n (cs @ [Stopped old, Started m]))) \<le> 1"
proof -
  show "unmatched [] (cs @ [Stopped old, Started m]) = [m]"
    using assms(1) by (auto simp add: unmatched_append)
  consider "n \<le> length cs" | "n = Suc (length cs)" | "Suc (length cs) < n"
    by linarith
  then show "length (unmatched [] (take n (cs @ [Stopped old, Started m]))) \<le> 1"
  proof cases
    case 1
    then show ?thesis using assms(2) [of n] by simp
  next
    case 2
    then show ?thesis using assms(1) by (auto simp add: unmatched_append)
  next
    case 3
    then show ?thesis using assms(1) by (auto simp add: unmatched_append)
  qed
qed

lemma step_modeCalls:
  "(modeCalls (step env x s) = modeCalls s \<and> mCaffeineMode (step env x s) = mCaffeineMode s)
   \<or> modeCalls (step env x s)
       = modeCalls s @ [Stopped (mCaffeineMode s), Started (mCaffeineMode (step env x s))]"
  by (cases x)
     (simp_all add: step_def SetCaffeineMode_frame ToggleCaffeineMode_def Let_def report_frame
        OnSystemMessage_def Refresh_frame ShowSettingsDialog_def)

lemma run_one_running:
  assumes "unmatched [] (modeCalls s) = [] \<or> unmatched [] (modeCalls s) = [mCaffeineMode s]"
    and "\<And>n. length (unmatched [] (take n (modeCalls s))) \<le> 1"
  shows "length (unmatched [] (take n (modeCalls (run env xs s)))) \<le> 1"
  using assms
proof (induction xs arbitrary: s n)
  case Nil
  then show ?case by simp
next
  case (Cons x xs)
  let ?t = "step env x s"
  have "(unmatched [] (modeCalls ?t) = [] \<or> unmatched [] (modeCalls ?t) = [mCaffeineMode ?t])
        \<and> (\<forall>k. length (unmatched [] (take k (modeCalls ?t))) \<le> 1)"
  proof (rule disjE [OF step_modeCalls [of env x s]])
    assume "modeCalls ?t = modeCalls s \<and> mCaffeineMode ?t = mCaffeineMode s"
    then show ?thesis using Cons.prems by simp
  next
    assume e: "modeCalls ?t = modeCalls s @ [Stopped (mCaffeineMode s), Started (mCaffeineMode ?t)]"
    show ?thesis
      unfolding e
      using stop_start_keeps_one [OF Cons.prems(1) Cons.prems(2)] by simp
  qed
  then show ?case
    using Cons.IH [of ?t n] by simp
qed

section \<open>Claims about \<open>UpdateExecutionState\<close>\<close>

text \<open>
  Claim C1. Whenever \<open>UpdateExecutionState\<close> runs in a mode other than Disabled while
  the session is locked: if the settings of the active mode have \<open>DisableOnLockScreen\<close>
  set, the recorded display flag \<open>mKeepDisplayOn\<close> is false afterwards, whatever
  \<open>KeepDisplayOn\<close> says, and no call made to the operating system carries
  \<open>ES_DISPLAY_REQUIRED\<close>; if \<open>DisableOnLockScreen\<close> is not set and \<open>KeepDisplayOn\<close> is, the
  display flag is true afterwards.
\<close>

theorem lock_screen_suppresses_display:
  assumes "mCaffeineMode s \<noteq> Disabled" and "mSessionState s = Locked"
  shows "(modeDisableOnLock s \<longrightarrow>
            \<not> mKeepDisplayOn (UpdateExecutionState env state s)
          \<and> (\<forall>f \<in> set (drop (length (osCalls s)) (osCalls (UpdateExecutionState env state s))).
                f AND ES_DISPLAY_REQUIRED = 0))
       \<and> (\<not> modeDisableOnLock s \<and> modeKeepDisplayOn s \<longrightarrow>
            mKeepDisplayOn (UpdateExecutionState env state s))"
  using assms
  by (simp add: UES_mKeepDisplayOn UES_osCalls desiredKeepDisplayOn_def flagsFor_display)

theorem lock_screen_suppresses_display_witness:
  "mCaffeineMode (ex_enabled cfg_display_lock Locked) \<noteq> Disabled
   \<and> mSessionState (ex_enabled cfg_display_lock Locked) = Locked
   \<and> modeDisableOnLock (ex_enabled cfg_display_lock Locked)
   \<and> modeKeepDisplayOn (ex_enabled cfg_display_lock Locked)
   \<and> \<not> mKeepDisplayOn (UpdateExecutionState env_ok Active (ex_enabled cfg_display_lock Locked))
   \<and> osCalls (UpdateExecutionState env_ok Active (ex_enabled cfg_display_lock Locked))
       = [0x80000001]
   \<and> mCaffeineMode (ex_enabled cfg_display Locked) \<noteq> Disabled
   \<and> mSessionState (ex_enabled cfg_display Locked) = Locked
   \<and> \<not> modeDisableOnLock (ex_enabled cfg_display Locked)
   \<and> modeKeepDisplayOn (ex_enabled cfg_display Locked)
   \<and> mKeepDisplayOn (UpdateExecutionState env_ok Active (ex_enabled cfg_display Locked))"
  using lock_screen_suppresses_display
          [of "ex_enabled cfg_display_lock Locked" env_ok Active]
        lock_screen_suppresses_display
          [of "ex_enabled cfg_display Locked" env_ok Active]
  by (simp add: ex_defs mode_defs flag_defs UES_osCalls)

text \<open>
  Claim C2, as stated, fails. The claim is that a failed call of
  \<open>SetThreadExecutionState\<close> leaves the recorded state and display flag as they were.
  The two members are assigned before the call and are not restored: in Enabled mode
  with \<open>KeepDisplayOn\<close> set, a request for Active whose call fails takes the members from
  (Inactive, false) to (Active, true).
\<close>

theorem failed_call_changes_state:
  "noUpdateNeeded Active (ex_enabled cfg_display Unlocked) = False
   \<and> os_ok env_fail (length (osCalls (ex_enabled cfg_display Unlocked))) = False
   \<and> mCaffeineState (ex_enabled cfg_display Unlocked) = Inactive
   \<and> mKeepDisplayOn (ex_enabled cfg_display Unlocked) = False
   \<and> mCaffeineState (UpdateExecutionState env_fail Active (ex_enabled cfg_display Unlocked))
       = Active
   \<and> mKeepDisplayOn (UpdateExecutionState env_fail Active (ex_enabled cfg_display Unlocked))
       = True"
  by (simp add: UES_mCaffeineState UES_mKeepDisplayOn ex_defs mode_defs)

text \<open>
  Claim C2, amended. When \<open>UpdateExecutionState\<close> makes a call of
  \<open>SetThreadExecutionState\<close> and the call fails, the application afterwards is the one
  before with the requested state recorded in \<open>mCaffeineState\<close>, the adjusted display
  flag recorded in \<open>mKeepDisplayOn\<close>, and the call in the history; nothing else changes
  (mode, session state and settings stay, icon and tip are not refreshed).
\<close>

theorem failed_call_is_recorded:
  assumes "\<not> noUpdateNeeded state s" and "\<not> os_ok env (length (osCalls s))"
  shows "UpdateExecutionState env state s =
           s\<lparr>mCaffeineState := state,
             mKeepDisplayOn := desiredKeepDisplayOn s,
             osCalls := osCalls s @ [flagsFor state (desiredKeepDisplayOn s)]\<rparr>"
  using assms by (simp add: UpdateExecutionState_unfold)

theorem failed_call_is_recorded_witness:
  "\<not> noUpdateNeeded Active (ex_enabled cfg_display Unlocked)
   \<and> \<not> os_ok env_fail (length (osCalls (ex_enabled cfg_display Unlocked)))
   \<and> UpdateExecutionState env_fail Active (ex_enabled cfg_display Unlocked) =
       (ex_enabled cfg_display Unlocked)
         \<lparr>mCaffeineState := Active, mKeepDisplayOn := True, osCalls := [0x80000003]\<rparr>"
  using failed_call_is_recorded [of Active "ex_enabled cfg_display Unlocked" env_fail]
  by (simp add: ex_defs mode_defs flag_defs)

text \<open>
  Claim C3, as stated, fails. The claim is that in Disabled mode the state after
  \<open>UpdateExecutionState\<close> is Inactive whatever was requested. \<open>OnCustomMessage\<close> passes
  the request on and the Disabled branch records it: from the constructor's state (mode
  Disabled) a request for Active yields Active, with a call that asks for
  \<open>ES_SYSTEM_REQUIRED\<close>.
\<close>

theorem disabled_mode_accepts_active:
  "mCaffeineMode CaffeineApp_ctor = Disabled
   \<and> mCaffeineState
        (OnCustomMessage env_ok WM_CAFFEINE_TAKE_UPDATE_EXECUTION_STATE 1 CaffeineApp_ctor)
       = Active
   \<and> osCalls
        (OnCustomMessage env_ok WM_CAFFEINE_TAKE_UPDATE_EXECUTION_STATE 1 CaffeineApp_ctor)
       = [0x80000001]"
  by (simp add: OnCustomMessage_def UES_mCaffeineState UES_osCalls ex_defs mode_defs flag_defs)

text \<open>
  Claim C3, amended. Whenever \<open>UpdateExecutionState\<close> runs in Disabled mode, the
  resulting state is the requested one (Inactive when Inactive is requested); when the
  recorded state already is the requested one nothing changes; when it is not, the
  display flag is false afterwards; and no call made carries \<open>ES_DISPLAY_REQUIRED\<close>.
\<close>

theorem disabled_mode_reconcile:
  assumes "mCaffeineMode s = Disabled"
  shows "mCaffeineState (UpdateExecutionState env state s) = state
       \<and> (mCaffeineState s = state \<longrightarrow> UpdateExecutionState env state s = s)
       \<and> (mCaffeineState s \<noteq> state \<longrightarrow> \<not> mKeepDisplayOn (UpdateExecutionState env state s))
       \<and> (\<forall>f \<in> set (drop (length (osCalls s)) (osCalls (UpdateExecutionState env state s))).
            f AND ES_DISPLAY_REQUIRED = 0)"
  using assms
  by (simp add: UES_mCaffeineState UES_mKeepDisplayOn UES_osCalls flagsFor_display
        desiredKeepDisplayOn_def modeKeepDisplayOn_def)
     (simp add: UpdateExecutionState_unfold noUpdateNeeded_def)

theorem disabled_mode_reconcile_witness:
  "mCaffeineMode CaffeineApp_ctor = Disabled
   \<and> mCaffeineState CaffeineApp_ctor = Inactive
   \<and> UpdateExecutionState env_ok Inactive CaffeineApp_ctor = CaffeineApp_ctor
   \<and> mCaffeineState (UpdateExecutionState env_ok Active CaffeineApp_ctor) = Active
   \<and> \<not> mKeepDisplayOn (UpdateExecutionState env_ok Active CaffeineApp_ctor)
   \<and> osCalls (UpdateExecutionState env_ok Active CaffeineApp_ctor) = [0x80000001]"
  using disabled_mode_reconcile [of CaffeineApp_ctor env_ok Inactive]
        disabled_mode_reconcile [of CaffeineApp_ctor env_ok Active]
  by (simp add: ex_defs mode_defs flag_defs UES_osCalls)

section \<open>Claims about the reachable states\<close>

text \<open>
  Claim C5, as stated, fails. The claim is that in every reachable state the display
  flag \<open>mKeepDisplayOn\<close> is true only if the state is Active. The flag records the
  settings of the mode, whatever the state: in Auto mode with \<open>KeepDisplayOn\<close> set, after
  the policy has reported active and then inactive, the state is Inactive and the flag
  is true.
\<close>

theorem display_flag_stale_when_inactive:
  "mCaffeineState
     (run env_ok [SetMode Auto, PolicyDecision True, PolicyDecision False]
        (initial cfg_display Unlocked)) = Inactive
   \<and> mKeepDisplayOn
     (run env_ok [SetMode Auto, PolicyDecision True, PolicyDecision False]
        (initial cfg_display Unlocked)) = True"
  by (simp add: step_def EnableCaffeine_def DisableCaffeine_def OnCustomMessage_def
        UES_mCaffeineState UES_mKeepDisplayOn UES_frame SetCaffeineMode_frame
        desiredKeepDisplayOn_def modeKeepDisplayOn_def initial_def CaffeineApp_ctor_def
        cfg_display_def)

text \<open>
  Claim C5, amended. In every state reachable from the initial state by any sequence
  of stimuli (mode switches, toggles, policy reports, session lock and unlock, new
  settings), whatever the mode objects report and whichever calls fail, the display is
  requested from the operating system (the last call of \<open>SetThreadExecutionState\<close>
  carried \<open>ES_DISPLAY_REQUIRED\<close>) exactly when the state is Active and \<open>mKeepDisplayOn\<close> is
  true; so the display is requested only while the state is Active.
\<close>

theorem display_requested_only_when_active:
  "displayRequested (run env xs (initial cfg session)) =
     (mCaffeineState (run env xs (initial cfg session)) = Active
      \<and> mKeepDisplayOn (run env xs (initial cfg session)))"
proof -
  have "lastRequestMatches (run env xs (initial cfg session))"
    by (rule run_lastRequestMatches) (rule initial_lastRequestMatches)
  then show ?thesis
    by (cases "osCalls (run env xs (initial cfg session)) = []")
       (simp_all add: lastRequestMatches_def displayRequested_def flagsFor_display)
qed

theorem display_requested_only_when_active_witness:
  "displayRequested
     (run env_ok [SetMode Auto, PolicyDecision True] (initial cfg_display Unlocked))
   \<and> mCaffeineState
       (run env_ok [SetMode Auto, PolicyDecision True] (initial cfg_display Unlocked)) = Active
   \<and> \<not> displayRequested
       (run env_ok [SetMode Auto, PolicyDecision True, PolicyDecision False]
          (initial cfg_display Unlocked))"
  using display_requested_only_when_active
          [of env_ok "[SetMode Auto, PolicyDecision True]" cfg_display Unlocked]
        display_requested_only_when_active
          [of env_ok "[SetMode Auto, PolicyDecision True, PolicyDecision False]"
             cfg_display Unlocked]
  by (simp add: step_def EnableCaffeine_def DisableCaffeine_def OnCustomMessage_def
        UES_mCaffeineState UES_mKeepDisplayOn UES_frame SetCaffeineMode_frame
        desiredKeepDisplayOn_def modeKeepDisplayOn_def initial_def CaffeineApp_ctor_def
        cfg_display_def)

section \<open>Claims about the short circuit, the session events and the mode switches\<close>

text \<open>
  Claim C4. Whenever \<open>UpdateExecutionState\<close> runs and the pair it would record (the
  requested state, the display flag after the lock-screen adjustment) equals the
  recorded pair (\<open>mCaffeineState\<close>, \<open>mKeepDisplayOn\<close>), the application is unchanged; the
  history of calls is part of the application, so no call of \<open>SetThreadExecutionState\<close>
  is made. In particular, with the mode objects of the specification, choosing Enabled
  twice in a row makes at most one call in the first switch and none in the second,
  while the Enabled policy is stopped and started in both.
\<close>

theorem short_circuit:
  "((mCaffeineState s, mKeepDisplayOn s) = (state, desiredKeepDisplayOn s) \<longrightarrow>
      UpdateExecutionState env state s = s)
   \<and> osCalls (SetCaffeineMode (spec_policies ok) Enabled
               (SetCaffeineMode (spec_policies ok) Enabled s))
       = osCalls (SetCaffeineMode (spec_policies ok) Enabled s)
   \<and> length (osCalls (SetCaffeineMode (spec_policies ok) Enabled s)) \<le> Suc (length (osCalls s))
   \<and> modeCalls (SetCaffeineMode (spec_policies ok) Enabled
                 (SetCaffeineMode (spec_policies ok) Enabled s))
       = modeCalls s @ [Stopped (mCaffeineMode s), Started Enabled, Stopped Enabled, Started Enabled]"
proof -
  let ?s1 = "SetCaffeineMode (spec_policies ok) Enabled s"
  have a: "(mCaffeineState s, mKeepDisplayOn s) = (state, desiredKeepDisplayOn s) \<longrightarrow>
      UpdateExecutionState env state s = s"
    by (simp add: UpdateExecutionState_unfold noUpdateNeeded_def)
  have d: "desiredKeepDisplayOn (?s1\<lparr>mCaffeineMode := Enabled\<rparr>)
             = desiredKeepDisplayOn (s\<lparr>mCaffeineMode := Enabled\<rparr>)"
    by (rule desiredKeepDisplayOn_cong) (simp_all add: SetCaffeineMode_frame)
  have b: "osCalls (SetCaffeineMode (spec_policies ok) Enabled ?s1) = osCalls ?s1"
    by (simp add: SetEnabled_spec_osCalls [of ok ?s1] SetEnabled_spec_state d)
  have c: "length (osCalls ?s1) \<le> Suc (length (osCalls s))"
    by (simp add: SetEnabled_spec_osCalls)
  have e: "modeCalls (SetCaffeineMode (spec_policies ok) Enabled ?s1)
       = modeCalls s @ [Stopped (mCaffeineMode s), Started Enabled, Stopped Enabled, Started Enabled]"
    by (simp add: SetCaffeineMode_frame)
  from a b c e show ?thesis by simp
qed

theorem short_circuit_witness:
  "(mCaffeineState (ex_enabled cfg_display Unlocked), mKeepDisplayOn (ex_enabled cfg_display Unlocked))
     \<noteq> (Active, desiredKeepDisplayOn (ex_enabled cfg_display Unlocked))
   \<and> osCalls (SetCaffeineMode env_ok Enabled (initial cfg_display Unlocked)) = [0x80000003]
   \<and> (mCaffeineState (SetCaffeineMode env_ok Enabled (initial cfg_display Unlocked)),
       mKeepDisplayOn (SetCaffeineMode env_ok Enabled (initial cfg_display Unlocked)))
      = (Active, desiredKeepDisplayOn (SetCaffeineMode env_ok Enabled (initial cfg_display Unlocked)))
   \<and> UpdateExecutionState env_ok Active (SetCaffeineMode env_ok Enabled (initial cfg_display Unlocked))
      = SetCaffeineMode env_ok Enabled (initial cfg_display Unlocked)
   \<and> osCalls (SetCaffeineMode env_ok Enabled
        (SetCaffeineMode env_ok Enabled (initial cfg_display Unlocked))) = [0x80000003]"
  using short_circuit [of "SetCaffeineMode env_ok Enabled (initial cfg_display Unlocked)"
          Active env_ok "\<lambda>n. True"]
        short_circuit [of "initial cfg_display Unlocked" Active env_ok "\<lambda>n. True"]
  by (simp add: env_ok_def SetEnabled_spec_osCalls SetEnabled_spec_state desiredKeepDisplayOn_def
        modeKeepDisplayOn_def modeDisableOnLock_def SetCaffeineMode_frame
        ex_enabled_def initial_def CaffeineApp_ctor_def cfg_display_def flag_defs)

text \<open>
  Claim C6. \<open>OnSystemMessage\<close> never changes the mode, never calls \<open>Start\<close> or \<open>Stop\<close> of
  a mode object and never changes the recorded state or the settings; on a session lock
  or unlock it sets \<open>mSessionState\<close> and runs \<open>RefreshExecutionState\<close>, nothing else. In
  particular a lock in Enabled mode with \<open>DisableOnLockScreen\<close> and \<open>KeepDisplayOn\<close> both
  set leaves the display flag false and the state as it was.
\<close>

theorem session_events_only_reconcile:
  "mCaffeineMode (snd (OnSystemMessage env uMsg wParam s)) = mCaffeineMode s
   \<and> modeCalls (snd (OnSystemMessage env uMsg wParam s)) = modeCalls s
   \<and> mCaffeineState (snd (OnSystemMessage env uMsg wParam s)) = mCaffeineState s
   \<and> mSettings (snd (OnSystemMessage env uMsg wParam s)) = mSettings s
   \<and> snd (OnSystemMessage env WM_WTSSESSION_CHANGE WTS_SESSION_LOCK s)
       = RefreshExecutionState env (s\<lparr>mSessionState := Locked\<rparr>)
   \<and> snd (OnSystemMessage env WM_WTSSESSION_CHANGE WTS_SESSION_UNLOCK s)
       = RefreshExecutionState env (s\<lparr>mSessionState := Unlocked\<rparr>)
   \<and> mSessionState (snd (OnSystemMessage env WM_WTSSESSION_CHANGE WTS_SESSION_LOCK s)) = Locked
   \<and> mSessionState (snd (OnSystemMessage env WM_WTSSESSION_CHANGE WTS_SESSION_UNLOCK s)) = Unlocked
   \<and> (mCaffeineMode s = Enabled
        \<and> DisableOnLockScreen (Standard (mSettings s))
        \<and> KeepDisplayOn (Standard (mSettings s)) \<longrightarrow>
          \<not> mKeepDisplayOn (snd (OnSystemMessage env WM_WTSSESSION_CHANGE WTS_SESSION_LOCK s))
        \<and> mCaffeineState (snd (OnSystemMessage env WM_WTSSESSION_CHANGE WTS_SESSION_LOCK s))
            = mCaffeineState s)"
  by (simp add: OnSystemMessage_def Refresh_frame WTS_SESSION_LOCK_def WTS_SESSION_UNLOCK_def)
     (simp add: RefreshExecutionState_def UES_mKeepDisplayOn desiredKeepDisplayOn_def
        modeKeepDisplayOn_def modeDisableOnLock_def)

theorem session_events_only_reconcile_witness:
  "mCaffeineMode ex_enabled_active = Enabled
   \<and> DisableOnLockScreen (Standard (mSettings ex_enabled_active))
   \<and> KeepDisplayOn (Standard (mSettings ex_enabled_active))
   \<and> mKeepDisplayOn ex_enabled_active
   \<and> mCaffeineState ex_enabled_active = Active
   \<and> \<not> mKeepDisplayOn
         (snd (OnSystemMessage env_ok WM_WTSSESSION_CHANGE WTS_SESSION_LOCK ex_enabled_active))
   \<and> mCaffeineState
         (snd (OnSystemMessage env_ok WM_WTSSESSION_CHANGE WTS_SESSION_LOCK ex_enabled_active))
       = Active
   \<and> mCaffeineMode
         (snd (OnSystemMessage env_ok WM_WTSSESSION_CHANGE WTS_SESSION_LOCK ex_enabled_active))
       = Enabled
   \<and> modeCalls
         (snd (OnSystemMessage env_ok WM_WTSSESSION_CHANGE WTS_SESSION_LOCK ex_enabled_active))
       = [Stopped Disabled, Started Enabled]"
proof -
  have pre: "mCaffeineMode ex_enabled_active = Enabled
      \<and> DisableOnLockScreen (Standard (mSettings ex_enabled_active))
      \<and> KeepDisplayOn (Standard (mSettings ex_enabled_active))
      \<and> mKeepDisplayOn ex_enabled_active
      \<and> mCaffeineState ex_enabled_active = Active
      \<and> modeCalls ex_enabled_active = [Stopped Disabled, Started Enabled]"
    by (simp add: ex_enabled_active_fields cfg_display_lock_def)
  show ?thesis
    using session_events_only_reconcile
            [of env_ok WM_WTSSESSION_CHANGE WTS_SESSION_LOCK ex_enabled_active] pre
    by metis
qed

text \<open>
  Claim C7. \<open>ToggleCaffeineMode\<close> calls \<open>SetCaffeineMode\<close> with the successor of the
  current mode in the cycle Disabled, Enabled, Auto, Timer, Disabled, and the mode
  afterwards is that successor; so from Disabled four toggles visit Enabled, Auto,
  Timer and Disabled, in that order.
\<close>

theorem toggle_cycle:
  "ToggleCaffeineMode env s =
     SetCaffeineMode env
       (case mCaffeineMode s of
          Disabled \<Rightarrow> Enabled | Enabled \<Rightarrow> Auto | Auto \<Rightarrow> Timer | Timer \<Rightarrow> Disabled) s
   \<and> mCaffeineMode (ToggleCaffeineMode env s) =
       (case mCaffeineMode s of
          Disabled \<Rightarrow> Enabled | Enabled \<Rightarrow> Auto | Auto \<Rightarrow> Timer | Timer \<Rightarrow> Disabled)
   \<and> (mCaffeineMode s = Disabled \<longrightarrow>
        map mCaffeineMode
          [run env [Toggle] s,
           run env [Toggle, Toggle] s,
           run env [Toggle, Toggle, Toggle] s,
           run env [Toggle, Toggle, Toggle, Toggle] s]
        = [Enabled, Auto, Timer, Disabled])"
  by (simp add: ToggleCaffeineMode_def Let_def SetCaffeineMode_frame step_def)

theorem toggle_cycle_witness:
  "mCaffeineMode (initial cfg_display Unlocked) = Disabled
   \<and> map mCaffeineMode
        [run env_ok [Toggle] (initial cfg_display Unlocked),
         run env_ok [Toggle, Toggle] (initial cfg_display Unlocked),
         run env_ok [Toggle, Toggle, Toggle] (initial cfg_display Unlocked),
         run env_ok [Toggle, Toggle, Toggle, Toggle] (initial cfg_display Unlocked)]
      = [Enabled, Auto, Timer, Disabled]"
  using toggle_cycle [of env_ok "initial cfg_display Unlocked"]
  by (simp add: initial_def CaffeineApp_ctor_def)

text \<open>
  Claim C8. After any sequence of stimuli from the initial state, and at every point
  of the history of mode calls (every prefix), at most one \<open>Start\<close> is without a later
  \<open>Stop\<close> of the same mode. \<open>SetCaffeineMode\<close> calls \<open>Stop\<close> on the object of the current
  mode, assigns the new mode and calls \<open>Start\<close> on the object of the new mode, in this
  order, also when the new mode is the current one; \<open>ToggleCaffeineMode\<close> does the
  same.
\<close>

theorem one_policy_running:
  "length (unmatched [] (take n (modeCalls (run env xs (initial cfg session))))) \<le> 1
   \<and> modeCalls (SetCaffeineMode env m s) = modeCalls s @ [Stopped (mCaffeineMode s), Started m]
   \<and> mCaffeineMode (SetCaffeineMode env m s) = m
   \<and> modeCalls (SetCaffeineMode env (mCaffeineMode s) s)
       = modeCalls s @ [Stopped (mCaffeineMode s), Started (mCaffeineMode s)]
   \<and> modeCalls (ToggleCaffeineMode env s)
       = modeCalls s @ [Stopped (mCaffeineMode s), Started (mCaffeineMode (ToggleCaffeineMode env s))]"
proof -
  have "length (unmatched [] (take n (modeCalls (run env xs (initial cfg session))))) \<le> 1"
    by (rule run_one_running) (simp_all add: initial_def CaffeineApp_ctor_def)
  then show ?thesis
    by (simp add: SetCaffeineMode_frame ToggleCaffeineMode_def Let_def)
qed

theorem one_policy_running_witness:
  "modeCalls (run env_ok [SetMode Enabled, SetMode Enabled, Toggle] (initial cfg_display Unlocked))
     = [Stopped Disabled, Started Enabled, Stopped Enabled, Started Enabled,
        Stopped Enabled, Started Auto]
   \<and> unmatched [] (take 4 (modeCalls
        (run env_ok [SetMode Enabled, SetMode Enabled, Toggle] (initial cfg_display Unlocked))))
     = [Enabled]
   \<and> length (unmatched [] (take 4 (modeCalls
        (run env_ok [SetMode Enabled, SetMode Enabled, Toggle] (initial cfg_display Unlocked)))))
     \<le> 1"
  using one_policy_running
          [of 4 env_ok "[SetMode Enabled, SetMode Enabled, Toggle]" cfg_display Unlocked]
  by (simp add: step_def SetCaffeineMode_frame ToggleCaffeineMode_def Let_def
        initial_def CaffeineApp_ctor_def)

section \<open>Claims about the settings file\<close>

text \<open>
  Claim C9, as stated, fails. The claim is that initialisation never aborts because
  of the content of the settings file. When the file exists and its text is not JSON,
  \<open>LoadSettings\<close> returns \<open>false\<close> and so does \<open>Init\<close>.
\<close>

theorem init_aborts_on_malformed_json:
  "fst (Init env_ok FileNotJson Unlocked True CaffeineApp_ctor) = False
   \<and> fst (LoadSettings FileNotJson CaffeineApp_ctor) = False"
  by (simp add: Init_def LoadSettings_def)

text \<open>
  Claim C9, amended. \<open>Init\<close> returns \<open>true\<close> exactly when the settings file is neither
  unreadable nor text that is not JSON, and the notify icon could be created. When the
  file is JSON from which no \<open>Settings\<close> can be converted, \<open>LoadSettings\<close> succeeds with
  the default settings; when the file is missing, the settings of the constructor stay.
  In both cases initialisation completes.
\<close>

theorem settings_fallback:
  "fst (Init env file session notifyIconOk s)
     = (file \<noteq> FileUnreadable \<and> file \<noteq> FileNotJson \<and> notifyIconOk)
   \<and> LoadSettings FileJsonNotSettings s = (True, s\<lparr>mSettings := Settings_default\<rparr>)
   \<and> fst (LoadSettings FileNotJson s) = False
   \<and> fst (LoadSettings FileUnreadable s) = False
   \<and> (notifyIconOk \<longrightarrow>
        mSettings (snd (Init env FileJsonNotSettings session notifyIconOk s)) = Settings_default
        \<and> mSettings (snd (Init env FileNotFound session notifyIconOk s)) = mSettings s
        \<and> mInitialized (snd (Init env FileJsonNotSettings session notifyIconOk s))
        \<and> mInitialized (snd (Init env FileNotFound session notifyIconOk s)))"
  by (cases "file") (simp_all add: Init_def LoadSettings_def Let_def SetCaffeineMode_frame)

theorem settings_fallback_witness:
  "fst (Init env_ok FileJsonNotSettings Unlocked True CaffeineApp_ctor)
   \<and> fst (Init env_ok FileNotFound Unlocked True CaffeineApp_ctor)
   \<and> \<not> fst (Init env_ok FileNotJson Unlocked True CaffeineApp_ctor)
   \<and> \<not> fst (Init env_ok FileUnreadable Unlocked True CaffeineApp_ctor)
   \<and> mSettings (snd (Init env_ok FileJsonNotSettings Unlocked True
        (CaffeineApp_ctor\<lparr>mSettings := cfg_display\<rparr>))) = Settings_default
   \<and> mSettings (snd (Init env_ok FileNotFound Unlocked True CaffeineApp_ctor)) = Settings_default"
  using settings_fallback [of env_ok FileJsonNotSettings Unlocked True CaffeineApp_ctor]
        settings_fallback [of env_ok FileNotFound Unlocked True CaffeineApp_ctor]
        settings_fallback [of env_ok FileNotJson Unlocked True CaffeineApp_ctor]
        settings_fallback [of env_ok FileUnreadable Unlocked True CaffeineApp_ctor]
        settings_fallback [of env_ok FileJsonNotSettings Unlocked True
          "CaffeineApp_ctor\<lparr>mSettings := cfg_display\<rparr>"]
  by (simp add: CaffeineApp_ctor_def)

section \<open>Claims about the flags\<close>

text \<open>
  Claim C10. Every call of \<open>SetThreadExecutionState\<close> made in any run carries
  \<open>ES_CONTINUOUS\<close>, and carries \<open>ES_DISPLAY_REQUIRED\<close> only together with
  \<open>ES_SYSTEM_REQUIRED\<close>. For a single \<open>UpdateExecutionState\<close> from any application
  (whatever display flag is recorded there), the call it makes carries \<open>ES_CONTINUOUS\<close>,
  carries \<open>ES_SYSTEM_REQUIRED\<close> exactly when the new state is Active, and carries
  \<open>ES_DISPLAY_REQUIRED\<close> only when the new state is Active.
\<close>

theorem os_flags_well_formed:
  "(\<forall>f \<in> set (osCalls (run env xs (initial cfg session))).
       f AND ES_CONTINUOUS \<noteq> 0
       \<and> (f AND ES_DISPLAY_REQUIRED \<noteq> 0 \<longrightarrow> f AND ES_SYSTEM_REQUIRED \<noteq> 0))
   \<and> (\<forall>f \<in> set (drop (length (osCalls s)) (osCalls (UpdateExecutionState env state s))).
       f AND ES_CONTINUOUS \<noteq> 0
       \<and> (f AND ES_SYSTEM_REQUIRED \<noteq> 0) = (state = Active)
       \<and> (f AND ES_DISPLAY_REQUIRED \<noteq> 0 \<longrightarrow> state = Active))"
proof -
  have "\<forall>f \<in> set (osCalls (run env xs (initial cfg session))). wellFormedFlags f"
    by (rule run_wellFormedFlags) (simp add: initial_def CaffeineApp_ctor_def)
  then have a: "\<forall>f \<in> set (osCalls (run env xs (initial cfg session))).
       f AND ES_CONTINUOUS \<noteq> 0
       \<and> (f AND ES_DISPLAY_REQUIRED \<noteq> 0 \<longrightarrow> f AND ES_SYSTEM_REQUIRED \<noteq> 0)"
    by (simp add: wellFormedFlags_def)
  have b: "\<forall>f \<in> set (drop (length (osCalls s)) (osCalls (UpdateExecutionState env state s))).
       f AND ES_CONTINUOUS \<noteq> 0
       \<and> (f AND ES_SYSTEM_REQUIRED \<noteq> 0) = (state = Active)
       \<and> (f AND ES_DISPLAY_REQUIRED \<noteq> 0 \<longrightarrow> state = Active)"
    by (simp add: UES_osCalls flagsFor_continuous flagsFor_system flagsFor_display)
  from a b show ?thesis by (rule conjI)
qed

theorem os_flags_well_formed_witness:
  "osCalls (run env_ok [SetMode Enabled, PolicyDecision False] (initial cfg_display Unlocked))
     = [0x80000003, 0x80000000]
   \<and> (0x80000003 :: EXECUTION_STATE) AND ES_CONTINUOUS \<noteq> 0
   \<and> (0x80000003 :: EXECUTION_STATE) AND ES_DISPLAY_REQUIRED \<noteq> 0
   \<and> (0x80000003 :: EXECUTION_STATE) AND ES_SYSTEM_REQUIRED \<noteq> 0
   \<and> (0x80000000 :: EXECUTION_STATE) AND ES_CONTINUOUS \<noteq> 0
   \<and> mKeepDisplayOn ex_stale
   \<and> drop (length (osCalls ex_stale)) (osCalls (UpdateExecutionState env_ok Inactive ex_stale))
       = [0x80000000]
   \<and> (0x80000000 :: EXECUTION_STATE) AND ES_DISPLAY_REQUIRED = 0"
proof -
  have c: "osCalls (run env_ok [SetMode Enabled, PolicyDecision False] (initial cfg_display Unlocked))
     = [0x80000003, 0x80000000]"
    by (simp add: step_def env_ok_def SetEnabled_spec_osCalls SetEnabled_spec_state
          DisableCaffeine_def OnCustomMessage_def UES_osCalls noUpdateNeeded_def
          SetCaffeineMode_frame desiredKeepDisplayOn_def modeKeepDisplayOn_def
          modeDisableOnLock_def initial_def CaffeineApp_ctor_def cfg_display_def flag_defs)
  have d: "mKeepDisplayOn ex_stale
     \<and> drop (length (osCalls ex_stale)) (osCalls (UpdateExecutionState env_ok Inactive ex_stale))
       = [0x80000000]"
    by (simp add: ex_stale_def UES_osCalls noUpdateNeeded_def desiredKeepDisplayOn_def
          modeKeepDisplayOn_def modeDisableOnLock_def initial_def CaffeineApp_ctor_def
          cfg_display_def flag_defs)
  show ?thesis
    using os_flags_well_formed
            [of env_ok "[SetMode Enabled, PolicyDecision False]" cfg_display Unlocked
                ex_stale Inactive]
    unfolding c using c d by (simp add: ES_DISPLAY_REQUIRED_def)
qed

end
